theory Spec2Isabelle
  imports Main "HOL-Library.Word"
begin

unbundle bit_operations_syntax

section \<open>Bytes, integers and errors\<close>

text \<open>
  A Python \<^verbatim>\<open>bytes\<close> object is a sequence of octets: a list of 8-bit words. The
  fields of the message tuples are Python integers (\<^verbatim>\<open>t.NamedTuple\<close> checks no
  range), so they are \<open>int\<close>; indexing or unpacking a \<^verbatim>\<open>bytes\<close> object gives the
  integer \<open>uint b\<close> of each octet, and \<^verbatim>\<open>bytes([...])\<close> raises \<^verbatim>\<open>ValueError\<close> for an
  integer outside \<^verbatim>\<open>range(256)\<close>.
\<close>

type_synonym byte = "8 word"
type_synonym bytes = "byte list"

text \<open>
  The exceptions of \<^verbatim>\<open>fix_log.py\<close>. \<open>HeaderDecodeError message header\<close> and
  \<open>BodyDecodeError type_str message body\<close> keep the arguments of the constructors;
  \<open>ValueError\<close> is the one \<^verbatim>\<open>bytes([...])\<close> raises.
\<close>

datatype error =
    HeaderDecodeError string bytes
  | BodyDecodeError string string bytes
  | ValueError

text \<open>\<^verbatim>\<open>bytes(xs)\<close> for a list of integers.\<close>

definition bytes_of :: "int list \<Rightarrow> error + bytes" where
  "bytes_of xs =
     (if list_all (\<lambda>x. 0 \<le> x \<and> x < 256) xs then Inr (map word_of_int xs)
      else Inl ValueError)"

text \<open>The decimal rendering of an integer by an f-string, \<^verbatim>\<open>f"{n}"\<close>.\<close>

fun str_nat :: "nat \<Rightarrow> string" where
  "str_nat n =
     (if n < 10 then [''0123456789'' ! n]
      else str_nat (n div 10) @ [''0123456789'' ! (n mod 10)])"

declare str_nat.simps [simp del]

definition str_int :: "int \<Rightarrow> string" where
  "str_int i = (if i < 0 then CHR ''-'' # str_nat (nat (- i)) else str_nat (nat i))"

section \<open>Messages\<close>

text \<open>
  \<^verbatim>\<open>decode_status: t.Literal["ok", "error"]\<close> is a two-valued enumeration.
\<close>

datatype decode_status = status_ok | status_error

text \<open>
  The union \<^verbatim>\<open>HTMessage\<close>; each constructor takes the fields of the named tuple in
  the order of the class.
\<close>

datatype HTMessage =
    RadioReceivedAprsChunk bytes int bool decode_status
      \<comment> \<open>\<open>chunk_data chunk_num is_final_chunk decode_status\<close>\<close>
  | ChannelInfoRequest int
      \<comment> \<open>\<open>channel_id\<close>\<close>
  | ChannelInfoResponse int int bytes
      \<comment> \<open>\<open>action_id channel_id channel_data\<close>\<close>
  | SetDigitalMessageUpdates bool
      \<comment> \<open>\<open>enabled\<close>\<close>
  | UnknownMessage "int \<times> int" bytes
      \<comment> \<open>\<open>message_type_id data\<close>\<close>

fun message_type_str :: "HTMessage \<Rightarrow> string" where
  "message_type_str (RadioReceivedAprsChunk d n f s) = ''radio_received_aprs_chunk''"
| "message_type_str (ChannelInfoRequest c) = ''channel_info_request''"
| "message_type_str (ChannelInfoResponse a c d) = ''channel_info_response''"
| "message_type_str (SetDigitalMessageUpdates e) = ''set_digital_message_updates''"
| "message_type_str (UnknownMessage t d) = ''unknown''"

fun message_type_id :: "HTMessage \<Rightarrow> int \<times> int" where
  "message_type_id (RadioReceivedAprsChunk d n f s) = (0x00, 0x09)"
| "message_type_id (ChannelInfoRequest c) = (0x00, 0x0D)"
| "message_type_id (ChannelInfoResponse a c d) = (0x00, 0x0E)"
| "message_type_id (SetDigitalMessageUpdates e) = (0x00, 0x06)"
| "message_type_id (UnknownMessage t d) = t"

subsection \<open>Body decoders\<close>

definition Unknown_from_message_body :: "bytes \<Rightarrow> int \<times> int \<Rightarrow> HTMessage" where
  "Unknown_from_message_body body tid = UnknownMessage tid body"

definition SetDigitalMessageUpdates_from_message_body :: "bytes \<Rightarrow> error + HTMessage" where
  "SetDigitalMessageUpdates_from_message_body body =
     (if length body \<noteq> 1 then
        Inl (BodyDecodeError ''set_digital_message_updates''
              (''Expected body length 1, got '' @ str_nat (length body)) body)
      else if uint (body ! 0) \<noteq> 0x00 \<and> uint (body ! 0) \<noteq> 0x01 then
        Inl (BodyDecodeError ''set_messaging_reports''
              (''Expected body[0] to be 0x00 or 0x01, got '' @ str_int (uint (body ! 0))) body)
      else Inr (SetDigitalMessageUpdates (uint (body ! 0) = 0x01)))"

definition ChannelInfoRequest_from_message_body :: "bytes \<Rightarrow> error + HTMessage" where
  "ChannelInfoRequest_from_message_body body =
     (if length body \<noteq> 1 then
        Inl (BodyDecodeError ''channel_info_request''
              (''Expected body length 1, got '' @ str_nat (length body)) body)
      else Inr (ChannelInfoRequest (uint (body ! 0))))"

text \<open>
  The starred unpacking \<^verbatim>\<open>(action_id, channel_id, *channel_data) = body\<close> raises
  \<^verbatim>\<open>ValueError\<close> on fewer than two octets; the length check before it excludes that.
\<close>

definition ChannelInfoResponse_from_message_body :: "bytes \<Rightarrow> error + HTMessage" where
  "ChannelInfoResponse_from_message_body body =
     (if length body < 2 then
        Inl (BodyDecodeError ''channel_info_response''
              (''Expected least 1 byte, got '' @ str_nat (length body)) body)
      else
        (case body of
           action_id # channel_id # channel_data \<Rightarrow>
             Inr (ChannelInfoResponse (uint action_id) (uint channel_id) channel_data)
         | _ \<Rightarrow> Inl ValueError))"

definition RadioReceivedAprsChunk_from_message_body :: "bytes \<Rightarrow> error + HTMessage" where
  "RadioReceivedAprsChunk_from_message_body body =
     (if length body < 2 then
        Inl (BodyDecodeError ''radio_received_aprs_chunk''
              (''Expected least 2 bytes, got '' @ str_nat (length body)) body)
      else
        let aprs_header = take 2 body;
            aprs_body = drop 2 body;
            decode_status_id = uint (aprs_header ! 0);
            chunk_info = uint (aprs_header ! 1)
        in
          if decode_status_id \<noteq> 0x01 \<and> decode_status_id \<noteq> 0x02 then
            Inl (BodyDecodeError ''radio_received_aprs_chunk''
                  (''Unknown decode status: '' @ str_int decode_status_id) body)
          else
            let decode_status = (if decode_status_id = 0x01 then status_error else status_ok);
                is_final_part = (chunk_info AND 0x80 = 0x80);
                chunk_num = chunk_info AND 0x7f
            in Inr (RadioReceivedAprsChunk aprs_body chunk_num is_final_part decode_status))"

subsection \<open>Body encoders\<close>

text \<open>
  \<^verbatim>\<open>to_message_body\<close> of each class. \<^verbatim>\<open>bytes([...]) + data\<close> raises when one of the
  integers is no octet.
\<close>

fun to_message_body :: "HTMessage \<Rightarrow> error + bytes" where
  "to_message_body (UnknownMessage t d) = Inr d"
| "to_message_body (SetDigitalMessageUpdates e) =
     bytes_of [if e then 0x01 else 0x00]"
| "to_message_body (ChannelInfoRequest c) = bytes_of [c]"
| "to_message_body (ChannelInfoResponse a c d) =
     (case bytes_of [0x00, c] of Inl err \<Rightarrow> Inl err | Inr hd2 \<Rightarrow> Inr (hd2 @ d))"
| "to_message_body (RadioReceivedAprsChunk d n f s) =
     (let chunk_info = n OR (if f then 0x80 else 0x00);
          decode_status_id = (case s of status_error \<Rightarrow> 0x01 | status_ok \<Rightarrow> 0x02)
      in case bytes_of [decode_status_id, chunk_info] of
           Inl err \<Rightarrow> Inl err
         | Inr hd2 \<Rightarrow> Inr (hd2 @ d))"

section \<open>The frame codec\<close>

definition encode_ht_message :: "HTMessage \<Rightarrow> error + bytes" where
  "encode_ht_message msg =
     (case to_message_body msg of
        Inl err \<Rightarrow> Inl err
      | Inr body \<Rightarrow>
          (case bytes_of [0xff, 0x01, 0x00, int (length body), 0x00, 0x02,
                          fst (message_type_id msg), snd (message_type_id msg)] of
             Inl err \<Rightarrow> Inl err
           | Inr header \<Rightarrow> Inr (header @ body)))"

text \<open>
  \<^verbatim>\<open>decode_ht_message\<close>. The result \<open>Inr (None, rest)\<close> is the source's
  \<^verbatim>\<open>(None, buffer)\<close>. The source rebinds \<^verbatim>\<open>buffer\<close> to \<^verbatim>\<open>buffer[8:]\<close> before it checks
  the header, so the \<^verbatim>\<open>buffer\<close> of every later line is the part after the header;
  it is \<open>buffer'\<close> here.
\<close>

definition decode_ht_message :: "bytes \<Rightarrow> error + (HTMessage option \<times> bytes)" where
  "decode_ht_message buffer =
     (if length buffer < 8 then Inr (None, buffer)
      else
        let header = take 8 buffer;
            buffer' = drop 8 buffer;
            start_flag = uint (header ! 0);
            constant_1 = uint (header ! 1);
            reserved_1 = uint (header ! 2);
            body_length = uint (header ! 3);
            reserved_2 = uint (header ! 4);
            constant_2 = uint (header ! 5);
            message_type_id_1 = uint (header ! 6);
            message_type_id_2 = uint (header ! 7);
            message_type_id = (message_type_id_1, message_type_id_2)
        in
          if start_flag \<noteq> 0xff then
            Inl (HeaderDecodeError
                  (''Expected byte[0](start_flag) = 0xff, got '' @ str_int start_flag) buffer')
          else if constant_1 \<noteq> 0x01 then
            Inl (HeaderDecodeError
                  (''Expected byte[1](constant_1) = 0x01, got '' @ str_int constant_1) buffer')
          else if reserved_1 \<noteq> 0x00 then
            Inl (HeaderDecodeError
                  (''Expected byte[2](reserved_1) = 0x00, got '' @ str_int reserved_1) buffer')
          else if reserved_2 \<noteq> 0x00 then
            Inl (HeaderDecodeError
                  (''Expected byte[4](reserved_2) = 0x00, got '' @ str_int reserved_2) buffer')
          else if constant_2 \<noteq> 0x02 then
            Inl (HeaderDecodeError
                  (''Expected byte[5](constant_2) = 0x02, got '' @ str_int constant_2) buffer')
          else if body_length > int (length buffer') then Inr (None, buffer')
          else
            let body = take (nat body_length) buffer';
                buffer'' = drop (nat body_length) buffer';
                returning = (\<lambda>r. case r of Inl err \<Rightarrow> Inl err
                                         | Inr m \<Rightarrow> Inr (Some m, buffer''))
            in
              if message_type_id = (0x00, 0x09) then
                returning (RadioReceivedAprsChunk_from_message_body body)
              else if message_type_id = (0x00, 0x0D) then
                returning (ChannelInfoRequest_from_message_body body)
              else if message_type_id = (0x80, 0x0D) then
                returning (ChannelInfoResponse_from_message_body body)
              else if message_type_id = (0x00, 0x06) then
                returning (SetDigitalMessageUpdates_from_message_body body)
              else
                Inr (Some (Unknown_from_message_body body message_type_id), buffer''))"

section \<open>The stream decoder\<close>

text \<open>
  \<^verbatim>\<open>buffer.find(b)\<close> for a single octet: the index of its first occurrence, \<open>None\<close>
  for Python's \<open>-1\<close>.
\<close>

fun find_byte :: "bytes \<Rightarrow> byte \<Rightarrow> nat option" where
  "find_byte [] b = None"
| "find_byte (x # xs) b =
     (if x = b then Some 0
      else case find_byte xs b of None \<Rightarrow> None | Some i \<Rightarrow> Some (Suc i))"

text \<open>
  The loop of \<^verbatim>\<open>HTMessageStream.feed\<close>, on the accumulator \<^verbatim>\<open>self._buffer\<close> and the
  local list \<^verbatim>\<open>messages\<close>. It returns the accumulator the stream is left with, and
  either the list \<^verbatim>\<open>feed\<close> returns or the exception it raises. When
  \<^verbatim>\<open>decode_ht_message\<close> raises, the assignment
  \<^verbatim>\<open>msg, self._buffer = decode_ht_message(self._buffer)\<close> does not happen: the
  accumulator stays as it was before the call of \<^verbatim>\<open>decode_ht_message\<close>, and the local
  \<^verbatim>\<open>messages\<close> is lost when the exception leaves \<^verbatim>\<open>feed\<close>. The diagnostic printed to
  \<^verbatim>\<open>stderr\<close> is not modelled.
\<close>

function feed_loop :: "bytes \<Rightarrow> HTMessage list \<Rightarrow> bytes \<times> (error + HTMessage list)" where
  "feed_loop buf messages =
     (if 8 \<le> length buf then
        if buf ! 0 \<noteq> 0xff then
          (case find_byte buf 0xff of
             None \<Rightarrow> feed_loop [] messages
           | Some idx \<Rightarrow> feed_loop (drop idx buf) messages)
        else
          (case decode_ht_message buf of
             Inl err \<Rightarrow> (buf, Inl err)
           | Inr (None, rest) \<Rightarrow> (rest, Inr messages)
           | Inr (Some msg, rest) \<Rightarrow> feed_loop rest (messages @ [msg]))
      else (buf, Inr messages))"
  by pat_completeness auto
termination
proof (relation "measure (\<lambda>(buf, messages). length buf)", goal_cases)
  case 1
  show ?case by simp
next
  case (2 buf messages)
  then show ?case by (cases buf) simp_all
next
  case (3 buf messages idx)
  then have "0 < idx"
    by (cases buf) (auto split: if_splits option.splits)
  with 3 show ?case by (cases buf) simp_all
next
  case (4 buf messages x2 x1 rest msg)
  then have "decode_ht_message buf = Inr (Some msg, rest)" by simp
  then have "length rest < length buf"
    by (auto simp: decode_ht_message_def Let_def split: if_splits sum.splits)
  then show ?case by simp
qed

declare feed_loop.simps [simp del]

text \<open>
  \<^verbatim>\<open>feed\<close>: the accumulator before the call and the data fed, to the accumulator
  after the call and the outcome. A fresh stream has the accumulator \<open>[]\<close>.
\<close>

definition feed :: "bytes \<Rightarrow> bytes \<Rightarrow> bytes \<times> (error + HTMessage list)" where
  "feed self_buffer data = feed_loop (self_buffer @ data) []"

subsection \<open>Messages that pass the frame codec unchanged\<close>

text \<open>
  The messages whose frame the decoder gives back as they are: the fields are in the
  ranges of the data model (\<open>chunk_num\<close> in 0..127, octets in 0..255), the body has at
  most 255 octets, so that \<^verbatim>\<open>len(body)\<close> fits the length octet, and the type id of an
  \<^verbatim>\<open>UnknownMessage\<close> is none of the four that \<^verbatim>\<open>decode_ht_message\<close> gives to a class.
  \<^verbatim>\<open>ChannelInfoResponse\<close> is left out: \<^verbatim>\<open>message_type_id\<close> gives it another type id
  than the one \<^verbatim>\<open>decode_ht_message\<close> matches.
\<close>

fun frame_stable :: "HTMessage \<Rightarrow> bool" where
  "frame_stable (RadioReceivedAprsChunk d n f s) = (0 \<le> n \<and> n \<le> 127 \<and> length d + 2 \<le> 255)"
| "frame_stable (ChannelInfoRequest c) = (0 \<le> c \<and> c \<le> 255)"
| "frame_stable (ChannelInfoResponse a c d) = False"
| "frame_stable (SetDigitalMessageUpdates e) = True"
| "frame_stable (UnknownMessage t d) =
     (0 \<le> fst t \<and> fst t \<le> 255 \<and> 0 \<le> snd t \<and> snd t \<le> 255
      \<and> t \<notin> {(0x00, 0x09), (0x00, 0x0D), (0x80, 0x0D), (0x00, 0x06)}
      \<and> length d \<le> 255)"

section \<open>Dispatch to the handlers of an audio connection\<close>

text \<open>
  Modelled from the spec: the protocol-level union \<^verbatim>\<open>p.AudioMessage\<close> is declared in
  \<^verbatim>\<open>benlink.internal.protocol\<close>, which is not among the sources. Its four classes and
  their fields are the patterns that \<^verbatim>\<open>audio_message_from_protocol\<close> matches.
\<close>

datatype p_AudioMessage =
    p_AudioData bytes
  | p_AudioEnd
  | p_AudioAck
  | p_AudioError string

datatype AudioMessage =
    AudioData bytes
  | AudioEnd
  | AudioAck
  | AudioError string

fun audio_message_from_protocol :: "p_AudioMessage \<Rightarrow> AudioMessage" where
  "audio_message_from_protocol (p_AudioData sbc_data) = AudioData sbc_data"
| "audio_message_from_protocol p_AudioEnd = AudioEnd"
| "audio_message_from_protocol p_AudioAck = AudioAck"
| "audio_message_from_protocol (p_AudioError message) = AudioError message"

text \<open>
  The part of an \<^verbatim>\<open>AudioConnection\<close> that dispatch depends on. \<^verbatim>\<open>self._handlers\<close> is a
  list of references to function objects; \<^verbatim>\<open>list.remove\<close> compares them by identity.
  Each function object is named by a number here, and \<open>handlers\<close> is the list of these
  names. \<open>program\<close> is everything else the callbacks read and write.
\<close>

record 's AudioConnection =
  handlers :: "nat list"
  program :: 's

text \<open>
  A handler is a callback \<^verbatim>\<open>Callable[[AudioMessage], None]\<close>. It acts on the whole
  connection, the list of handlers included (it may call \<^verbatim>\<open>_register_message_handler\<close> or
  a \<^verbatim>\<open>remove_handler\<close> it holds), and either returns (\<open>None\<close>) or raises an exception
  (\<open>Some e\<close>).
\<close>

type_synonym ('s, 'e) handler =
  "AudioMessage \<Rightarrow> 's AudioConnection \<Rightarrow> 's AudioConnection \<times> 'e option"

text \<open>
  \<^verbatim>\<open>_register_message_handler\<close> appends the handler; the closure \<^verbatim>\<open>remove_handler\<close> it
  returns calls \<^verbatim>\<open>self._handlers.remove(handler)\<close>, which takes the first occurrence out
  and raises \<^verbatim>\<open>ValueError\<close> when there is none.
\<close>

definition register_message_handler :: "nat \<Rightarrow> 's AudioConnection \<Rightarrow> 's AudioConnection" where
  "register_message_handler handler self = self\<lparr>handlers := handlers self @ [handler]\<rparr>"

definition remove_handler :: "nat \<Rightarrow> 's AudioConnection \<Rightarrow> error + 's AudioConnection" where
  "remove_handler handler self =
     (if handler \<in> set (handlers self)
      then Inr (self\<lparr>handlers := remove1 handler (handlers self)\<rparr>)
      else Inl ValueError)"

text \<open>
  \<open>on_msg\<close> is the closure that \<^verbatim>\<open>AudioConnection.connect\<close> gives to the link:
  \<^verbatim>\<open>for handler in self._handlers: handler(audio_message_from_protocol(msg))\<close>, with no
  \<^verbatim>\<open>try\<close> around the call, so that an exception leaves the loop. The \<^verbatim>\<open>for\<close> statement
  keeps an index into the live list: before every call it compares the index with the
  length the list has then, and takes the element the list has at that index then. A
  handler that changes the list changes what the loop does next, and handlers that keep
  appending keep the loop running: the loop is a partial function, \<open>None\<close> when it does
  not return. \<open>objects\<close> gives the behaviour of each function object. The class never
  rebinds \<^verbatim>\<open>self._handlers\<close> after \<^verbatim>\<open>__init__\<close>: every change of \<open>handlers\<close> is a change
  of the one list object the loop walks.
\<close>

partial_function (option) on_msg_loop ::
  "(nat \<Rightarrow> ('s, 'e) handler) \<Rightarrow> p_AudioMessage \<Rightarrow> nat \<Rightarrow> 's AudioConnection
     \<Rightarrow> ('s AudioConnection \<times> 'e option) option" where
  "on_msg_loop objects msg i self =
     (if i < length (handlers self) then
        (case objects (handlers self ! i) (audio_message_from_protocol msg) self of
           (self', Some e) \<Rightarrow> Some (self', Some e)
         | (self', None) \<Rightarrow> on_msg_loop objects msg (Suc i) self')
      else Some (self, None))"

definition on_msg ::
  "(nat \<Rightarrow> ('s, 'e) handler) \<Rightarrow> p_AudioMessage \<Rightarrow> 's AudioConnection
     \<Rightarrow> ('s AudioConnection \<times> 'e option) option" where
  "on_msg objects msg self = on_msg_loop objects msg 0 self"

text \<open>
  The connection after the first \<open>k\<close> calls of the loop that starts at index \<open>i\<close>, when
  there are \<open>k\<close> calls and each of them returns; \<open>None\<close> otherwise.
\<close>

fun returned_calls ::
  "(nat \<Rightarrow> ('s, 'e) handler) \<Rightarrow> p_AudioMessage \<Rightarrow> nat \<Rightarrow> nat \<Rightarrow> 's AudioConnection
     \<Rightarrow> 's AudioConnection option" where
  "returned_calls objects msg 0 i self = Some self"
| "returned_calls objects msg (Suc k) i self =
     (if i < length (handlers self) then
        (case objects (handlers self ! i) (audio_message_from_protocol msg) self of
           (self', Some e) \<Rightarrow> None
         | (self', None) \<Rightarrow> returned_calls objects msg k (Suc i) self')
      else None)"

text \<open>
  Three function objects for the examples: object 0 raises, object 1 records the
  message in \<open>program\<close>, every other object unregisters itself.
\<close>

definition example_objects :: "nat \<Rightarrow> (AudioMessage list, error) handler" where
  "example_objects h =
     (if h = 0 then (\<lambda>m self. (self, Some ValueError))
      else if h = 1 then (\<lambda>m self. (self\<lparr>program := program self @ [m]\<rparr>, None))
      else (\<lambda>m self. case remove_handler h self of
                         Inl err \<Rightarrow> (self, Some err)
                       | Inr self' \<Rightarrow> (self', None)))"

section \<open>Auxiliary facts\<close>

lemma uint_byte_of_int: "0 \<le> x \<Longrightarrow> x < 256 \<Longrightarrow> uint (word_of_int x :: byte) = x"
  by (simp add: uint_word_of_int take_bit_eq_mod)

lemma unat_byte_of_nat: "n \<le> 255 \<Longrightarrow> unat (word_of_nat n :: byte) = n"
  by (simp add: unat_of_nat take_bit_eq_mod)

lemma chunk_low:
  fixes n :: int
  assumes "0 \<le> n" "n \<le> 127"
  shows "n AND 0x7f = n" and "n AND 0x80 = 0"
proof -
  have m: "(0x7f :: int) = mask 7" by (simp add: mask_eq_exp_minus_1)
  from assms have "n < 2 ^ 7" by simp
  with assms have "take_bit 7 n = n" by (intro take_bit_int_eq_self)
  then show a: "n AND 0x7f = n"
    unfolding m by (simp only: take_bit_eq_mask)
  have "n AND 0x80 = (n AND 0x7f) AND 0x80" by (simp only: a)
  also have "\<dots> = n AND (0x7f AND 0x80)" by (simp only: and.assoc)
  also have "(0x7f :: int) AND 0x80 = 0" by simp
  finally show "n AND 0x80 = 0" by simp
qed

lemma chunk_info_bits:
  fixes n :: int
  assumes "0 \<le> n" "n \<le> 127"
  shows "(n OR (if f then 0x80 else 0x00)) AND 0x7f = n"
    and "((n OR (if f then 0x80 else 0x00)) AND 0x80 = 0x80) = f"
    and "0 \<le> (n OR (if f then 0x80 else 0x00))"
    and "(n OR (if f then 0x80 else 0x00)) < 256"
proof -
  note l = chunk_low [OF assms]
  show "(n OR (if f then 0x80 else 0x00)) AND 0x7f = n"
    by (simp add: bit.conj_disj_distrib2 l)
  show "((n OR (if f then 0x80 else 0x00)) AND 0x80 = 0x80) = f"
    by (simp add: bit.conj_disj_distrib2 l)
  from assms show "0 \<le> (n OR (if f then 0x80 else 0x00))" by simp
  have "n OR 0x80 < 2 ^ 8" using assms by (intro OR_upper) simp_all
  with assms show "(n OR (if f then 0x80 else 0x00)) < 256" by simp
qed

text \<open>
  A frame with valid header constants whose length octet \<open>n\<close> is the length of the
  body that follows: the body goes to the decoder of its type id, the bytes after it
  are the remainder.
\<close>

lemma decode_frame:
  fixes n t1 t2 :: byte
  assumes "length body = unat n"
  shows "decode_ht_message (0xff # 0x01 # 0x00 # n # 0x00 # 0x02 # t1 # t2 # body @ rest) =
     (let returning = (\<lambda>r. case r of Inl err \<Rightarrow> Inl err | Inr m \<Rightarrow> Inr (Some m, rest)) in
      if (uint t1, uint t2) = (0x00, 0x09) then
        returning (RadioReceivedAprsChunk_from_message_body body)
      else if (uint t1, uint t2) = (0x00, 0x0D) then
        returning (ChannelInfoRequest_from_message_body body)
      else if (uint t1, uint t2) = (0x80, 0x0D) then
        returning (ChannelInfoResponse_from_message_body body)
      else if (uint t1, uint t2) = (0x00, 0x06) then
        returning (SetDigitalMessageUpdates_from_message_body body)
      else Inr (Some (UnknownMessage (uint t1, uint t2) body), rest))"
  using assms
  by (simp add: decode_ht_message_def Let_def Unknown_from_message_body_def)

text \<open>
  With valid header constants and fewer bytes after the header than the length octet
  announces, the result is \<^verbatim>\<open>(None, buffer)\<close> for the rebound \<^verbatim>\<open>buffer\<close>: the bytes after
  the header, without the header.
\<close>

lemma decode_need_more:
  fixes n t1 t2 :: byte
  assumes "length partial < unat n"
  shows "decode_ht_message (0xff # 0x01 # 0x00 # n # 0x00 # 0x02 # t1 # t2 # partial) =
     Inr (None, partial)"
proof -
  from assms have "length partial < nat (uint n)"
    by simp
  then have lt: "int (length partial) < uint n"
    by linarith
  show ?thesis
    unfolding decode_ht_message_def Let_def
    using lt by simp
qed

text \<open>
  Every \<^verbatim>\<open>HeaderDecodeError\<close> of \<^verbatim>\<open>decode_ht_message\<close> is built from the rebound
  \<^verbatim>\<open>buffer\<close>: its \<^verbatim>\<open>header\<close> attribute holds the bytes after the eight header bytes.
\<close>

lemma decode_header_error_tail:
  "decode_ht_message buffer = Inl (HeaderDecodeError message header) \<Longrightarrow>
     header = drop 8 buffer"
  by (auto simp: decode_ht_message_def Let_def
      RadioReceivedAprsChunk_from_message_body_def ChannelInfoRequest_from_message_body_def
      ChannelInfoResponse_from_message_body_def SetDigitalMessageUpdates_from_message_body_def
      split: if_splits sum.splits list.splits)

text \<open>
  The header checks on a buffer of at least eight bytes, in the order of the source:
  the first constant that differs raises, with a message that names the field, the
  expected and the actual value; with all five constants right the result depends on
  the length octet, the type id and the rest only.
\<close>

lemma decode_header_checks:
  fixes s c1 r1 n r2 c2 t1 t2 :: byte
  shows "decode_ht_message (s # c1 # r1 # n # r2 # c2 # t1 # t2 # rest) =
     (if s \<noteq> 0xff then
        Inl (HeaderDecodeError
              (''Expected byte[0](start_flag) = 0xff, got '' @ str_int (uint s)) rest)
      else if c1 \<noteq> 0x01 then
        Inl (HeaderDecodeError
              (''Expected byte[1](constant_1) = 0x01, got '' @ str_int (uint c1)) rest)
      else if r1 \<noteq> 0x00 then
        Inl (HeaderDecodeError
              (''Expected byte[2](reserved_1) = 0x00, got '' @ str_int (uint r1)) rest)
      else if r2 \<noteq> 0x00 then
        Inl (HeaderDecodeError
              (''Expected byte[4](reserved_2) = 0x00, got '' @ str_int (uint r2)) rest)
      else if c2 \<noteq> 0x02 then
        Inl (HeaderDecodeError
              (''Expected byte[5](constant_2) = 0x02, got '' @ str_int (uint c2)) rest)
      else decode_ht_message (0xff # 0x01 # 0x00 # n # 0x00 # 0x02 # t1 # t2 # rest))"
proof -
  have u: "(uint x = 0xff) = (x = 0xff)" "(uint x = 0x01) = (x = 0x01)"
    "(uint x = 0x00) = (x = 0x00)" "(uint x = 0x02) = (x = 0x02)" for x :: byte
    using word_uint_eq_iff [of x "0xff"] word_uint_eq_iff [of x "0x01"]
      word_uint_eq_iff [of x "0x00"] word_uint_eq_iff [of x "0x02"]
    by simp_all
  show ?thesis
    by (simp add: decode_ht_message_def Let_def u)
qed

text \<open>
  The body encoders and decoders of the three classes whose encoder writes every field,
  and the frames \<^verbatim>\<open>encode_ht_message\<close> builds around a body.
\<close>

lemma aprs_body_roundtrip:
  assumes "0 \<le> n" "n \<le> 127"
  shows "\<exists>body. to_message_body (RadioReceivedAprsChunk d n f s) = Inr body
           \<and> length body = length d + 2
           \<and> RadioReceivedAprsChunk_from_message_body body = Inr (RadioReceivedAprsChunk d n f s)"
proof -
  let ?ci = "n OR (if f then 0x80 else 0x00)"
  let ?sid = "case s of status_error \<Rightarrow> 0x01 | status_ok \<Rightarrow> (0x02 :: int)"
  note b = chunk_info_bits [OF assms, of f]
  have sid: "0 \<le> ?sid" "?sid < 256" by (cases s; simp)+
  have enc: "to_message_body (RadioReceivedAprsChunk d n f s) =
      Inr (word_of_int ?sid # word_of_int ?ci # d)"
    using b(3,4) sid by (simp add: bytes_of_def Let_def del: word_of_int_eq_iff)
  have u1: "uint (word_of_int ?sid :: byte) = ?sid"
    using sid by (rule uint_byte_of_int)
  have u2: "uint (word_of_int ?ci :: byte) = ?ci"
    using b(3,4) by (rule uint_byte_of_int)
  have dec: "RadioReceivedAprsChunk_from_message_body (word_of_int ?sid # word_of_int ?ci # d) =
      Inr (RadioReceivedAprsChunk d n f s)"
    unfolding RadioReceivedAprsChunk_from_message_body_def Let_def
    apply (simp only: list.size length_Cons take_Suc_Cons take_0 drop_Suc_Cons drop_0
        nth_Cons_0 nth_Cons_Suc numeral_2_eq_2 One_nat_def u1 u2 b(1) b(2))
    apply (cases s; simp)
    done
  show ?thesis using enc dec by simp
qed

lemma request_body_roundtrip:
  assumes "0 \<le> c" "c \<le> 255"
  shows "to_message_body (ChannelInfoRequest c) = Inr [word_of_int c]
           \<and> ChannelInfoRequest_from_message_body [word_of_int c] = Inr (ChannelInfoRequest c)"
  using assms by (simp add: bytes_of_def ChannelInfoRequest_from_message_body_def uint_byte_of_int)

lemma updates_body_roundtrip:
  shows "to_message_body (SetDigitalMessageUpdates e) = Inr [if e then 1 else 0]
           \<and> SetDigitalMessageUpdates_from_message_body [if e then 1 else 0] =
               Inr (SetDigitalMessageUpdates e)"
  by (simp add: bytes_of_def SetDigitalMessageUpdates_from_message_body_def)


lemma encode_frame:
  assumes "to_message_body v = Inr body" and "length body \<le> 255"
    and "message_type_id v = (i1, i2)" and "0 \<le> i1" "i1 < 256" "0 \<le> i2" "i2 < 256"
  shows "encode_ht_message v =
     Inr (0xff # 0x01 # 0x00 # word_of_nat (length body) # 0x00 # 0x02
          # word_of_int i1 # word_of_int i2 # body)"
  using assms by (simp add: encode_ht_message_def bytes_of_def)

lemma decode_encoded:
  fixes i1 i2 :: int
  assumes "length body \<le> 255" and "0 \<le> i1" "i1 < 256" "0 \<le> i2" "i2 < 256"
  shows "decode_ht_message ((0xff # 0x01 # 0x00 # word_of_nat (length body) # 0x00 # 0x02
          # word_of_int i1 # word_of_int i2 # body) @ rest) =
     (let returning = (\<lambda>r. case r of Inl err \<Rightarrow> Inl err | Inr m \<Rightarrow> Inr (Some m, rest)) in
      if (i1, i2) = (0x00, 0x09) then
        returning (RadioReceivedAprsChunk_from_message_body body)
      else if (i1, i2) = (0x00, 0x0D) then
        returning (ChannelInfoRequest_from_message_body body)
      else if (i1, i2) = (0x80, 0x0D) then
        returning (ChannelInfoResponse_from_message_body body)
      else if (i1, i2) = (0x00, 0x06) then
        returning (SetDigitalMessageUpdates_from_message_body body)
      else Inr (Some (UnknownMessage (i1, i2) body), rest))"
proof -
  from assms(1) have len: "length body = unat (word_of_nat (length body) :: byte)"
    by (simp add: unat_byte_of_nat)
  have u: "uint (word_of_int i1 :: byte) = i1" "uint (word_of_int i2 :: byte) = i2"
    using assms(2-5) by (simp_all only: uint_byte_of_int)
  show ?thesis
    using decode_frame [OF len, of "word_of_int i1" "word_of_int i2" rest]
    by (simp only: u append_Cons)
qed

lemma frame_stable_codec:
  assumes "frame_stable v"
  shows "\<exists>bs. encode_ht_message v = Inr bs \<and> 8 \<le> length bs \<and> bs ! 0 = 0xff
           \<and> (\<forall>rest. decode_ht_message (bs @ rest) = Inr (Some v, rest))"
proof (cases v)
  case (RadioReceivedAprsChunk d n f s)
  with assms have r: "0 \<le> n" "n \<le> 127" and l: "length d + 2 \<le> 255" by simp_all
  from aprs_body_roundtrip [OF r, of d f s] obtain body where
    b: "to_message_body v = Inr body" "length body = length d + 2"
      "RadioReceivedAprsChunk_from_message_body body = Inr v"
    unfolding RadioReceivedAprsChunk by blast
  from b(2) l have lb: "length body \<le> 255" by simp
  have e: "encode_ht_message v =
     Inr (0xff # 0x01 # 0x00 # word_of_nat (length body) # 0x00 # 0x02
          # word_of_int 0x00 # word_of_int 0x09 # body)"
    by (rule encode_frame [OF b(1) lb]) (simp_all add: RadioReceivedAprsChunk)
  have "decode_ht_message ((0xff # 0x01 # 0x00 # word_of_nat (length body) # 0x00 # 0x02
          # word_of_int 0x00 # word_of_int 0x09 # body) @ rest) = Inr (Some v, rest)" for rest
    using decode_encoded [OF lb, of "0x00" "0x09" rest] b(3) by simp
  with e show ?thesis by simp
next
  case (ChannelInfoRequest c)
  with assms have r: "0 \<le> c" "c \<le> 255" by simp_all
  let ?body = "[word_of_int c :: byte]"
  from request_body_roundtrip [OF r] have
    b: "to_message_body v = Inr ?body" "ChannelInfoRequest_from_message_body ?body = Inr v"
    unfolding ChannelInfoRequest by simp_all
  have lb: "length ?body \<le> 255" by simp
  have e: "encode_ht_message v =
     Inr (0xff # 0x01 # 0x00 # word_of_nat (length ?body) # 0x00 # 0x02
          # word_of_int 0x00 # word_of_int 0x0D # ?body)"
    by (rule encode_frame [OF b(1) lb]) (simp_all add: ChannelInfoRequest)
  have "decode_ht_message ((0xff # 0x01 # 0x00 # word_of_nat (length ?body) # 0x00 # 0x02
          # word_of_int 0x00 # word_of_int 0x0D # ?body) @ rest) = Inr (Some v, rest)" for rest
    using decode_encoded [OF lb, of "0x00" "0x0D" rest] b(2) by simp
  with e show ?thesis by simp
next
  case (ChannelInfoResponse a c d)
  with assms show ?thesis by simp
next
  case (SetDigitalMessageUpdates e)
  let ?body = "[if e then 1 else 0 :: byte]"
  from updates_body_roundtrip [of e] have
    b: "to_message_body v = Inr ?body" "SetDigitalMessageUpdates_from_message_body ?body = Inr v"
    unfolding SetDigitalMessageUpdates by simp_all
  have lb: "length ?body \<le> 255" by simp
  have en: "encode_ht_message v =
     Inr (0xff # 0x01 # 0x00 # word_of_nat (length ?body) # 0x00 # 0x02
          # word_of_int 0x00 # word_of_int 0x06 # ?body)"
    by (rule encode_frame [OF b(1) lb]) (simp_all add: SetDigitalMessageUpdates)
  have "decode_ht_message ((0xff # 0x01 # 0x00 # word_of_nat (length ?body) # 0x00 # 0x02
          # word_of_int 0x00 # word_of_int 0x06 # ?body) @ rest) = Inr (Some v, rest)" for rest
    using decode_encoded [OF lb, of "0x00" "0x06" rest] b(2) by simp
  with en show ?thesis by simp
next
  case (UnknownMessage t d)
  obtain i1 i2 where t: "t = (i1, i2)" by (cases t)
  from assms have r: "0 \<le> i1" "i1 < 256" "0 \<le> i2" "i2 < 256"
    and k: "(i1, i2) \<noteq> (0x00, 0x09)" "(i1, i2) \<noteq> (0x00, 0x0D)"
           "(i1, i2) \<noteq> (0x80, 0x0D)" "(i1, i2) \<noteq> (0x00, 0x06)"
    and lb: "length d \<le> 255"
    unfolding UnknownMessage t by auto
  have b: "to_message_body v = Inr d" by (simp add: UnknownMessage)
  have e: "encode_ht_message v =
     Inr (0xff # 0x01 # 0x00 # word_of_nat (length d) # 0x00 # 0x02
          # word_of_int i1 # word_of_int i2 # d)"
    by (rule encode_frame [OF b lb _ r]) (simp add: UnknownMessage t)
  have "decode_ht_message ((0xff # 0x01 # 0x00 # word_of_nat (length d) # 0x00 # 0x02
          # word_of_int i1 # word_of_int i2 # d) @ rest) = Inr (Some v, rest)" for rest
    using decode_encoded [OF lb r, of rest] k
    by (simp only: Let_def if_False UnknownMessage t)
  with e show ?thesis by simp
qed

text \<open>
  Single steps of the loop of \<^verbatim>\<open>feed\<close>: a frame that decodes is taken off the
  accumulator and its message appended; fewer than eight bytes end the loop; an
  exception of \<^verbatim>\<open>decode_ht_message\<close> leaves the accumulator as it is; bytes before the
  first \<open>0xFF\<close> are dropped.
\<close>

lemma decode_Some_start:
  assumes "decode_ht_message buf = Inr (Some m, r)"
  shows "8 \<le> length buf \<and> buf ! 0 = 0xff"
proof -
  from assms have len: "8 \<le> length buf"
    by (auto simp: decode_ht_message_def split: if_splits)
  from assms len have "uint (take 8 buf ! 0) = 0xff"
    by (auto simp: decode_ht_message_def Let_def split: if_splits)
  with len have "uint (buf ! 0) = uint (0xff :: byte)" by simp
  then have "buf ! 0 = 0xff" by (simp only: word_uint_eq_iff)
  with len show ?thesis by simp
qed


lemma find_byte_append:
  "b \<notin> set g \<Longrightarrow> bs \<noteq> [] \<Longrightarrow> bs ! 0 = b \<Longrightarrow> find_byte (g @ bs) b = Some (length g)"
  by (induction g) (auto simp: neq_Nil_conv)

lemma feed_loop_frame:
  assumes "decode_ht_message (bs @ rest) = Inr (Some m, rest)"
  shows "feed_loop (bs @ rest) messages = feed_loop rest (messages @ [m])"
proof -
  from decode_Some_start [OF assms] have "8 \<le> length (bs @ rest)" "(bs @ rest) ! 0 = 0xff"
    by simp_all
  with assms show ?thesis
    by (subst feed_loop.simps) simp
qed

lemma feed_loop_short:
  "length buf < 8 \<Longrightarrow> feed_loop buf messages = (buf, Inr messages)"
  by (subst feed_loop.simps) simp


lemma feed_loop_resync:
  assumes "0xff \<notin> set g" and "g \<noteq> []" and "8 \<le> length bs" and "bs ! 0 = 0xff"
  shows "feed_loop (g @ bs) messages = feed_loop bs messages"
proof -
  from assms(3) have ne: "bs \<noteq> []" by auto
  from assms(1,2) have "(g @ bs) ! 0 \<noteq> 0xff"
    by (cases g) auto
  moreover from assms(3) have "8 \<le> length (g @ bs)" by simp
  moreover have "find_byte (g @ bs) 0xff = Some (length g)"
    using assms(1) ne assms(4) by (rule find_byte_append)
  ultimately show ?thesis
    by (subst feed_loop.simps) simp
qed

text \<open>
  A valid header followed by a part of its body, fed to a fresh stream: the call returns
  no message, and the accumulator keeps the part of the body without the header.
\<close>

lemma feed_partial_body:
  fixes n t1 t2 :: byte
  assumes "length partial < unat n"
  shows "feed [] (0xff # 0x01 # 0x00 # n # 0x00 # 0x02 # t1 # t2 # partial) = (partial, Inr [])"
  using decode_need_more [OF assms, of t1 t2]
  by (simp add: feed_def feed_loop.simps [of "0xff # _"])

text \<open>
  Two frames outside \<open>frame_stable\<close>: the frame of a \<^verbatim>\<open>ChannelInfoResponse\<close> decodes to
  an \<^verbatim>\<open>UnknownMessage\<close> with the type id \<open>(0x00, 0x0E)\<close>, and a body of 256 octets makes
  \<^verbatim>\<open>bytes([...])\<close> raise on \<^verbatim>\<open>len(body)\<close>.
\<close>

lemma channel_info_response_frame_is_unknown:
  "encode_ht_message (ChannelInfoResponse 0 2 [3]) =
       Inr [0xff, 0x01, 0x00, 0x03, 0x00, 0x02, 0x00, 0x0E, 0x00, 0x02, 0x03]
   \<and> decode_ht_message [0xff, 0x01, 0x00, 0x03, 0x00, 0x02, 0x00, 0x0E, 0x00, 0x02, 0x03] =
       Inr (Some (UnknownMessage (0x00, 0x0E) [0x00, 0x02, 0x03]), [])"
  by (simp add: encode_ht_message_def bytes_of_def decode_ht_message_def Let_def
      Unknown_from_message_body_def)

lemma encode_long_body_raises:
  "encode_ht_message (UnknownMessage (0x01, 0x01) (replicate 256 0)) = Inl ValueError"
  by (simp add: encode_ht_message_def bytes_of_def)

text \<open>
  The dispatch loop after calls that returned; a dispatch in which every call returns;
  and a handler that unregisters itself during the dispatch, after which the loop skips
  the handler registered behind it.
\<close>

lemma on_msg_loop_skip:
  "returned_calls objects msg k i self = Some self1 \<Longrightarrow>
     on_msg_loop objects msg i self = on_msg_loop objects msg (i + k) self1"
proof (induction k arbitrary: i self)
  case 0
  then show ?case by simp
next
  case (Suc k)
  from Suc.prems obtain self' where
    i: "i < length (handlers self)"
    and c: "objects (handlers self ! i) (audio_message_from_protocol msg) self = (self', None)"
    and r: "returned_calls objects msg k (Suc i) self' = Some self1"
    by (auto split: if_splits prod.splits option.splits)
  have "on_msg_loop objects msg i self = on_msg_loop objects msg (Suc i) self'"
    using i c by (subst on_msg_loop.simps) simp
  also have "\<dots> = on_msg_loop objects msg (Suc i + k) self1"
    using r by (rule Suc.IH)
  finally show ?case by simp
qed

lemma on_msg_all_return:
  assumes "returned_calls objects msg k 0 self = Some self1"
    and "length (handlers self1) \<le> k"
  shows "on_msg objects msg self = Some (self1, None)"
proof -
  have "on_msg_loop objects msg 0 self = on_msg_loop objects msg (0 + k) self1"
    using assms(1) by (rule on_msg_loop_skip)
  also have "\<dots> = Some (self1, None)"
    using assms(2) by (subst on_msg_loop.simps) simp
  finally show ?thesis by (simp add: on_msg_def)
qed

lemma self_removal_skips_next:
  "on_msg example_objects p_AudioAck \<lparr>handlers = [2, 1], program = []\<rparr> =
     Some (\<lparr>handlers = [1], program = []\<rparr>, None)"
  by (simp add: on_msg_def on_msg_loop.simps example_objects_def remove_handler_def)

section \<open>The claims\<close>

subsection \<open>C3: the two type ids and the action-id octet of ChannelInfoResponse\<close>



subsection \<open>C2: a header whose body is not complete yet\<close>

text \<open>
  Claim C2 says that a buffer with a valid header and fewer body bytes than the header
  announces comes back unchanged with the need-more-data result. The code returns
  \<^verbatim>\<open>(None, buffer)\<close> after \<^verbatim>\<open>buffer = buffer[8:]\<close>: on the eight bytes
  \<open>FF 01 00 01 00 02 00 0D\<close>, which announce one body byte, the remainder is empty and
  the header is gone. (\<open>decode_need_more\<close> is the same fact for every such buffer.)
\<close>

theorem need_more_data_drops_header:
  "decode_ht_message [0xff, 0x01, 0x00, 0x01, 0x00, 0x02, 0x00, 0x0D] = Inr (None, [])"
  by (simp add: decode_ht_message_def Let_def)

subsection \<open>C7: what a HeaderDecodeError carries\<close>

text \<open>
  Claim C7 says that a malformed header constant raises \<^verbatim>\<open>HeaderDecodeError\<close> at the
  first mismatch, with a message that names the field, and carrying the offending raw
  bytes. On the frame of \<^verbatim>\<open>ChannelInfoRequest(5)\<close> with \<open>constant_1\<close> flipped to
  \<open>0x02\<close> the error names \<open>constant_1\<close>, the expected \<open>0x01\<close> and the actual \<open>2\<close>, but its
  \<^verbatim>\<open>header\<close> attribute is the body byte \<open>05\<close> that follows the header, not the header
  with the offending byte. (\<open>decode_header_checks\<close> and \<open>decode_header_error_tail\<close> are
  the general facts: the order of the checks and the messages are as the claim says,
  and the bytes carried are always those after the header.)
\<close>

theorem header_error_carries_tail:
  "decode_ht_message [0xff, 0x02, 0x00, 0x01, 0x00, 0x02, 0x00, 0x0D, 0x05] =
     Inl (HeaderDecodeError ''Expected byte[1](constant_1) = 0x01, got 2'' [0x05])"
  by (simp add: decode_ht_message_def Let_def str_int_def str_nat.simps)

subsection \<open>C4: the round trip of the bodies\<close>

text \<open>
  Claim C4 says that decoding the body a known variant encodes gives the variant back.
  For \<^verbatim>\<open>ChannelInfoResponse(action_id=1, channel_id=2, channel_data=b"\\x03")\<close> the
  encoder writes \<open>00 02 03\<close>, and the decoder makes
  \<^verbatim>\<open>ChannelInfoResponse(action_id=0, ...)\<close> of it: the action id is lost.
\<close>

theorem channel_info_response_body_loses_action_id:
  "to_message_body (ChannelInfoResponse 1 2 [3]) = Inr [0x00, 0x02, 0x03]
   \<and> ChannelInfoResponse_from_message_body [0x00, 0x02, 0x03] =
       Inr (ChannelInfoResponse 0 2 [3])"
  by (simp add: bytes_of_def ChannelInfoResponse_from_message_body_def)

subsection \<open>C8: unknown type ids\<close>

text \<open>
  Claim C8. A well-formed frame (valid header constants, a length octet that is the
  length of the body, hence a body of at most 255 octets) whose type id \<open>(t1, t2)\<close> is
  none of the four known ones decodes, without an error, to the \<^verbatim>\<open>UnknownMessage\<close> with
  that type id and that body, and \<^verbatim>\<open>encode_ht_message\<close> of this message is the frame
  again, byte for byte.
\<close>

theorem unknown_frame_roundtrip:
  fixes t1 t2 :: byte
  assumes "(uint t1, uint t2) \<notin> {(0x00, 0x09), (0x00, 0x0D), (0x80, 0x0D), (0x00, 0x06)}"
    and "length body \<le> 255"
  shows "decode_ht_message
           (0xff # 0x01 # 0x00 # word_of_nat (length body) # 0x00 # 0x02 # t1 # t2 # body) =
         Inr (Some (UnknownMessage (uint t1, uint t2) body), [])
    \<and> encode_ht_message (UnknownMessage (uint t1, uint t2) body) =
         Inr (0xff # 0x01 # 0x00 # word_of_nat (length body) # 0x00 # 0x02 # t1 # t2 # body)"
proof (intro conjI)
  from assms(2) have len: "length body = unat (word_of_nat (length body) :: byte)"
    by (simp add: unat_byte_of_nat)
  from assms(1) have ids:
    "(uint t1, uint t2) \<noteq> (0x00, 0x09)" "(uint t1, uint t2) \<noteq> (0x00, 0x0D)"
    "(uint t1, uint t2) \<noteq> (0x80, 0x0D)" "(uint t1, uint t2) \<noteq> (0x00, 0x06)"
    by auto
  show "decode_ht_message
           (0xff # 0x01 # 0x00 # word_of_nat (length body) # 0x00 # 0x02 # t1 # t2 # body) =
         Inr (Some (UnknownMessage (uint t1, uint t2) body), [])"
    using decode_frame [OF len, of t1 t2 "[]"] ids
    by (simp only: Let_def if_False append_Nil2)
  have "uint t1 < 256" "uint t2 < 256"
    using uint_bounded [of t1] uint_bounded [of t2] by simp_all
  with assms(2)
  show "encode_ht_message (UnknownMessage (uint t1, uint t2) body) =
         Inr (0xff # 0x01 # 0x00 # word_of_nat (length body) # 0x00 # 0x02 # t1 # t2 # body)"
    by (simp add: encode_ht_message_def bytes_of_def)
qed

theorem unknown_frame_roundtrip_witness:
  "decode_ht_message [0xff, 0x01, 0x00, 0x02, 0x00, 0x02, 0x01, 0x01, 0xAA, 0xBB] =
     Inr (Some (UnknownMessage (1, 1) [0xAA, 0xBB]), [])
   \<and> encode_ht_message (UnknownMessage (1, 1) [0xAA, 0xBB]) =
     Inr [0xff, 0x01, 0x00, 0x02, 0x00, 0x02, 0x01, 0x01, 0xAA, 0xBB]"
  using unknown_frame_roundtrip [of "0x01" "0x01" "[0xAA, 0xBB]"] by simp

subsection \<open>C5: a frame followed by trailing bytes\<close>

text \<open>
  Claim C5, amended. For every message \<open>v\<close> that is \<open>frame_stable\<close> (an APRS chunk, a
  channel info request or a digital message update within its field ranges, or an
  unknown message whose type id is two octets outside the four known ids; body of at
  most 255 octets) and every byte string \<open>trailing_garbage\<close>, \<^verbatim>\<open>encode_ht_message\<close>
  returns a frame, and \<^verbatim>\<open>decode_ht_message\<close> of the frame followed by the trailing bytes
  returns \<open>v\<close> and exactly the trailing bytes.
\<close>

theorem framing_idempotence:
  assumes "frame_stable v"
  shows "\<exists>bs. encode_ht_message v = Inr bs
           \<and> decode_ht_message (bs @ trailing_garbage) = Inr (Some v, trailing_garbage)"
  using frame_stable_codec [OF assms] by blast

text \<open>The amended claim at an APRS chunk followed by the bytes \<open>DE AD\<close>.\<close>

theorem framing_idempotence_witness:
  "frame_stable (RadioReceivedAprsChunk [0x41, 0x42] 1 True status_ok)
   \<and> encode_ht_message (RadioReceivedAprsChunk [0x41, 0x42] 1 True status_ok) =
       Inr [0xff, 0x01, 0x00, 0x04, 0x00, 0x02, 0x00, 0x09, 0x02, 0x81, 0x41, 0x42]
   \<and> decode_ht_message
        ([0xff, 0x01, 0x00, 0x04, 0x00, 0x02, 0x00, 0x09, 0x02, 0x81, 0x41, 0x42] @ [0xDE, 0xAD]) =
       Inr (Some (RadioReceivedAprsChunk [0x41, 0x42] 1 True status_ok), [0xDE, 0xAD])"
  using framing_idempotence [of "RadioReceivedAprsChunk [0x41, 0x42] 1 True status_ok" "[0xDE, 0xAD]"]
  by (simp add: encode_ht_message_def bytes_of_def)

text \<open>
  Claim C5 as stated fails at \<^verbatim>\<open>UnknownMessage((0x00, 0x06), b"\\x01")\<close>, whose fields are
  octets: its frame carries the type id of \<^verbatim>\<open>SetDigitalMessageUpdates\<close> and decodes to
  \<^verbatim>\<open>SetDigitalMessageUpdates(enabled=True)\<close>.
\<close>

theorem unknown_with_known_id_counterexample:
  "encode_ht_message (UnknownMessage (0x00, 0x06) [0x01]) =
       Inr [0xff, 0x01, 0x00, 0x01, 0x00, 0x02, 0x00, 0x06, 0x01]
   \<and> decode_ht_message ([0xff, 0x01, 0x00, 0x01, 0x00, 0x02, 0x00, 0x06, 0x01] @ []) =
       Inr (Some (SetDigitalMessageUpdates True), [])
   \<and> decode_ht_message ([0xff, 0x01, 0x00, 0x01, 0x00, 0x02, 0x00, 0x06, 0x01] @ []) \<noteq>
       Inr (Some (UnknownMessage (0x00, 0x06) [0x01]), [])"
  by (simp add: encode_ht_message_def bytes_of_def decode_ht_message_def Let_def
      SetDigitalMessageUpdates_from_message_body_def)

subsection \<open>C9: resynchronisation\<close>

text \<open>
  Claim C9, amended. For every \<open>frame_stable\<close> message \<open>msg\<close> and all leading bytes
  \<open>garbage\<close> without an \<open>0xFF\<close> among them (such as \<open>00 00\<close>), feeding the garbage
  followed by the frame of \<open>msg\<close> to a fresh stream in one call returns exactly
  \<open>[msg]\<close>, raises nothing and leaves the accumulator empty.
\<close>

theorem resync_discards_garbage:
  assumes "frame_stable msg" and "0xff \<notin> set garbage"
  shows "\<exists>bs. encode_ht_message msg = Inr bs \<and> feed [] (garbage @ bs) = ([], Inr [msg])"
proof -
  from frame_stable_codec [OF assms(1)] obtain bs where
    e: "encode_ht_message msg = Inr bs" and l: "8 \<le> length bs" and s: "bs ! 0 = 0xff"
    and d: "decode_ht_message (bs @ []) = Inr (Some msg, [])"
    by blast
  have "feed_loop (bs @ []) [] = feed_loop [] ([] @ [msg])"
    using d by (rule feed_loop_frame)
  then have whole: "feed_loop bs [] = ([], Inr [msg])"
    by (simp add: feed_loop_short)
  have "feed_loop (garbage @ bs) [] = feed_loop bs []"
  proof (cases "garbage = []")
    case True
    then show ?thesis by simp
  next
    case False
    with assms(2) show ?thesis using l s by (rule feed_loop_resync)
  qed
  with whole e show ?thesis by (simp add: feed_def)
qed

text \<open>The amended claim at the garbage \<open>00 00\<close> and \<^verbatim>\<open>ChannelInfoRequest(5)\<close>.\<close>

theorem resync_discards_garbage_witness:
  "frame_stable (ChannelInfoRequest 5) \<and> 0xff \<notin> set [0x00, 0x00 :: byte]
   \<and> encode_ht_message (ChannelInfoRequest 5) =
        Inr [0xff, 0x01, 0x00, 0x01, 0x00, 0x02, 0x00, 0x0D, 0x05]
   \<and> feed [] ([0x00, 0x00] @ [0xff, 0x01, 0x00, 0x01, 0x00, 0x02, 0x00, 0x0D, 0x05]) =
        ([], Inr [ChannelInfoRequest 5])"
  using resync_discards_garbage [of "ChannelInfoRequest 5" "[0x00, 0x00]"]
  by (simp add: encode_ht_message_def bytes_of_def)

text \<open>
  Claim C9 as stated fails at \<^verbatim>\<open>ChannelInfoRequest(5)\<close>: after \<open>00 00 FF\<close> and the frame,
  the loop drops \<open>00 00\<close>, stops at the first \<open>0xFF\<close>, which is the last garbage byte,
  and \<^verbatim>\<open>decode_ht_message\<close> reads the start flag of the frame as \<open>constant_1\<close>: \<^verbatim>\<open>feed\<close>
  raises \<^verbatim>\<open>HeaderDecodeError\<close> and returns no message.
\<close>

theorem resync_stray_marker_counterexample:
  "encode_ht_message (ChannelInfoRequest 5) =
        Inr [0xff, 0x01, 0x00, 0x01, 0x00, 0x02, 0x00, 0x0D, 0x05]
   \<and> feed [] ([0x00, 0x00, 0xff] @ [0xff, 0x01, 0x00, 0x01, 0x00, 0x02, 0x00, 0x0D, 0x05]) =
        ([0xff, 0xff, 0x01, 0x00, 0x01, 0x00, 0x02, 0x00, 0x0D, 0x05],
         Inl (HeaderDecodeError ''Expected byte[1](constant_1) = 0x01, got 255'' [0x0D, 0x05]))"
  by (simp add: encode_ht_message_def bytes_of_def feed_def feed_loop.simps
      decode_ht_message_def Let_def str_int_def str_nat.simps)

subsection \<open>C10: a decode error after a decoded message\<close>




subsection \<open>C1: a frame delivered in pieces\<close>

text \<open>
  Claim C1 says that a frame split into chunks gives \<open>[]\<close> for every call that completes
  a strict prefix and \<open>[msg]\<close> for the call that completes the frame. The frame of
  \<^verbatim>\<open>ChannelInfoRequest(5)\<close>, split after its header: the first call returns \<open>[]\<close> and
  leaves an empty accumulator, since \<^verbatim>\<open>decode_ht_message\<close> hands back the bytes after the
  header; the second call, which completes the frame, returns \<open>[]\<close> as well, and the
  body byte waits in the accumulator. (\<open>feed_partial_body\<close> is the first step for every
  split after the header.)
\<close>

theorem split_after_header_loses_message:
  "encode_ht_message (ChannelInfoRequest 5) =
     Inr ([0xff, 0x01, 0x00, 0x01, 0x00, 0x02, 0x00, 0x0D] @ [0x05])
   \<and> (let (buffer1, result1) = feed [] [0xff, 0x01, 0x00, 0x01, 0x00, 0x02, 0x00, 0x0D];
           (buffer2, result2) = feed buffer1 [0x05]
       in (result1, result2, buffer2)) = (Inr [], Inr [], [0x05])"
  by (simp add: encode_ht_message_def bytes_of_def feed_def feed_loop.simps
      decode_ht_message_def Let_def)

subsection \<open>C6: a handler that raises\<close>

text \<open>
  Claim C6, amended. \<open>on_msg\<close> calls the handlers of the live list \<^verbatim>\<open>self._handlers\<close> in
  the order of the list. When the first \<open>k\<close> calls have returned and the handler the
  list then has at index \<open>k\<close> raises \<open>e\<close>, the dispatch ends there: the exception leaves
  the loop, and the connection is as that handler left it, whatever handlers stand
  behind it in the list: they do not receive the message.
\<close>

theorem dispatch_stops_at_failing_handler:
  assumes "returned_calls objects msg k 0 self = Some self1"
    and "k < length (handlers self1)"
    and "objects (handlers self1 ! k) (audio_message_from_protocol msg) self1 = (self2, Some e)"
  shows "on_msg objects msg self = Some (self2, Some e)"
proof -
  have "on_msg_loop objects msg 0 self = on_msg_loop objects msg (0 + k) self1"
    using assms(1) by (rule on_msg_loop_skip)
  also have "\<dots> = Some (self2, Some e)"
    using assms(2,3) by (subst on_msg_loop.simps) simp
  finally show ?thesis by (simp add: on_msg_def)
qed

text \<open>
  The amended claim at a list of four handlers: the first unregisters itself and
  returns, the handler then at index 1 raises, and the recording handler at the end
  has recorded nothing.
\<close>

theorem dispatch_stops_at_failing_handler_witness:
  "returned_calls example_objects p_AudioAck 1 0 \<lparr>handlers = [2, 0, 0, 1], program = []\<rparr> =
     Some \<lparr>handlers = [0, 0, 1], program = []\<rparr>
   \<and> on_msg example_objects p_AudioAck \<lparr>handlers = [2, 0, 0, 1], program = []\<rparr> =
     Some (\<lparr>handlers = [0, 0, 1], program = []\<rparr>, Some ValueError)"
proof -
  have r: "returned_calls example_objects p_AudioAck 1 0 \<lparr>handlers = [2, 0, 0, 1], program = []\<rparr> =
     Some \<lparr>handlers = [0, 0, 1], program = []\<rparr>"
    by (simp add: example_objects_def remove_handler_def)
  have l: "1 < length (handlers \<lparr>handlers = [0, 0, 1], program = ([] :: AudioMessage list)\<rparr>)"
    by simp
  have h: "example_objects (handlers \<lparr>handlers = [0, 0, 1], program = []\<rparr> ! 1)
      (audio_message_from_protocol p_AudioAck) \<lparr>handlers = [0, 0, 1], program = []\<rparr> =
      (\<lparr>handlers = [0, 0, 1], program = []\<rparr>, Some ValueError)"
    by (simp add: example_objects_def)
  from dispatch_stops_at_failing_handler [OF r l h] r show ?thesis by simp
qed

text \<open>
  Claim C6 as stated fails: behind a handler that raises, the handler that records its
  messages has recorded nothing after the dispatch of an \<^verbatim>\<open>AudioAck\<close>; registered alone,
  it records the message.
\<close>

theorem failing_handler_blocks_later_counterexample:
  "on_msg example_objects p_AudioAck \<lparr>handlers = [0, 1], program = []\<rparr> =
     Some (\<lparr>handlers = [0, 1], program = []\<rparr>, Some ValueError)
   \<and> on_msg example_objects p_AudioAck \<lparr>handlers = [1], program = []\<rparr> =
     Some (\<lparr>handlers = [1], program = [AudioAck]\<rparr>, None)"
  by (simp add: on_msg_def on_msg_loop.simps example_objects_def)

end
